theory Spec2Isabelle
  imports Complex_Main "HOL-Library.AList"
begin

section \<open>Logestic: a request logger for Elysia\<close>

text \<open>
  A shallow embedding of \<^verbatim>\<open>src/index.ts\<close> (class \<^verbatim>\<open>Logestic\<close>) and
  \<^verbatim>\<open>src/utils.ts\<close> (\<^verbatim>\<open>buildAttrs\<close>, \<^verbatim>\<open>colourLogType\<close>, \<^verbatim>\<open>removeAnsi\<close>).

  Strings are lists of code units. A HOL \<open>char\<close> has 8 bits, so the model covers the
  code units U+0000 to U+00FF; every character the source inspects (ESC, \<open>[\<close>, digits,
  \<open>m\<close>, the newline) lies there.
\<close>

subsection \<open>Strings of the language\<close>

definition newline :: string where
  "newline = [CHR 0x0A]"

definition ESC :: char where
  "ESC = CHR 0x1B"

text \<open>
  \<^verbatim>\<open>WhiteSpace\<close> and \<^verbatim>\<open>LineTerminator\<close> of ECMAScript, as far as they are code
  units below U+0100: TAB, LF, VT, FF, CR, SP and NBSP. \<^verbatim>\<open>trimStart\<close>, \<^verbatim>\<open>trim\<close>
  and the numeric conversion of a string all use this set.
\<close>

definition isWhiteSpace :: "char \<Rightarrow> bool" where
  "isWhiteSpace c \<longleftrightarrow>
     c \<in> {CHR 0x09, CHR 0x0A, CHR 0x0B, CHR 0x0C, CHR 0x0D, CHR 0x20, CHR 0xA0}"

definition trimStart :: "string \<Rightarrow> string" where
  "trimStart s = dropWhile isWhiteSpace s"

definition trimEnd :: "string \<Rightarrow> string" where
  "trimEnd s = rev (dropWhile isWhiteSpace (rev s))"

definition trim :: "string \<Rightarrow> string" where
  "trim s = trimEnd (trimStart s)"

text \<open>A message is blank when it consists of white space only (the empty one included).\<close>

definition blank :: "string \<Rightarrow> bool" where
  "blank s \<longleftrightarrow> list_all isWhiteSpace s"

definition isDigit :: "char \<Rightarrow> bool" where
  "isDigit c \<longleftrightarrow> c \<in> set ''0123456789''"

text \<open>\<^verbatim>\<open>String.prototype.toUpperCase\<close> on the letters \<open>a\<close> to \<open>z\<close>.\<close>

definition upperChar :: "char \<Rightarrow> char" where
  "upperChar c =
     (if (97::nat) \<le> of_char c \<and> of_char c \<le> (122::nat)
      then char_of (of_char c - (32::nat)) else c)"

definition toUpperCase :: "string \<Rightarrow> string" where
  "toUpperCase s = map upperChar s"

text \<open>
  The operator \<^verbatim>\<open>a || d\<close> on a value that is a string or \<^verbatim>\<open>null\<close>: the empty
  string and \<^verbatim>\<open>null\<close> are falsy and give \<open>d\<close>.
\<close>

definition or_string :: "string option \<Rightarrow> string \<Rightarrow> string" where
  "or_string a d = (case a of None \<Rightarrow> d | Some s \<Rightarrow> if s = [] then d else s)"

text \<open>
  The same operator on an optional boolean, as the constructor uses it:
  \<^verbatim>\<open>undefined\<close> and \<^verbatim>\<open>false\<close> are falsy.
\<close>

definition or_bool :: "bool option \<Rightarrow> bool \<Rightarrow> bool" where
  "or_bool a d = (case a of None \<Rightarrow> d | Some b \<Rightarrow> if b then b else d)"

subsection \<open>Numbers of the language\<close>

text \<open>
  A \<^verbatim>\<open>number\<close> is an IEEE 754 double: not-a-number, an infinity, the negative zero, or a
  finite double, kept as the rational it denotes (\<open>Finite 0\<close> is the positive zero).
\<close>

datatype number = NaN | Infinity | NegInfinity | NegZero | Finite rat

definition negate :: "number \<Rightarrow> number" where
  "negate n =
     (case n of
        NaN \<Rightarrow> NaN
      | Infinity \<Rightarrow> NegInfinity
      | NegInfinity \<Rightarrow> Infinity
      | NegZero \<Rightarrow> Finite 0
      | Finite q \<Rightarrow> if q = 0 then NegZero else Finite (- q))"

text \<open>\<^verbatim>\<open>!n\<close> for a number: the two zeros and not-a-number are falsy.\<close>

definition falsyNumber :: "number \<Rightarrow> bool" where
  "falsyNumber n \<longleftrightarrow> n = NaN \<or> n = Finite 0 \<or> n = NegZero"

text \<open>
  The double nearest to a fraction \<open>a / b\<close> of whole numbers (\<open>a\<close> not negative, \<open>b\<close>
  positive), ties going to the even significand: the Number value for a mathematical
  value, as \<^verbatim>\<open>StringToNumber\<close> takes it. \<open>bitLength\<close> is the number of binary digits.
\<close>

function bitLength :: "int \<Rightarrow> nat" where
  "bitLength n = (if n \<le> 0 then 0 else Suc (bitLength (n div 2)))"
  by pat_completeness auto
termination
  by (relation "measure nat") auto

declare bitLength.simps [simp del]

definition pow2 :: "int \<Rightarrow> rat" where
  "pow2 k = (if 0 \<le> k then 2 ^ nat k else 1 / 2 ^ nat (- k))"

definition roundHalfEven :: "int \<Rightarrow> int \<Rightarrow> int" where
  "roundHalfEven a b =
     (let n = a div b; r = a mod b
      in if b < 2 * r \<or> (2 * r = b \<and> odd n) then n + 1 else n)"

text \<open>
  \<open>e\<close> is the binary exponent of the fraction, \<open>u\<close> the exponent of the last place of a
  double of that size (53 binary digits; from \<open>2 ^ -1022\<close> downwards the doubles are
  subnormal and the last place stays at \<open>2 ^ -1074\<close>), \<open>n\<close> the fraction in units of
  \<open>2 ^ u\<close>, rounded. What rounds to \<open>2 ^ 1024\<close> or more is infinite.
\<close>

definition toDouble :: "int \<Rightarrow> int \<Rightarrow> number" where
  "toDouble a b =
     (if a \<le> 0 then Finite 0
      else
        let e0 = int (bitLength a) - int (bitLength b);
            e = (if (if 0 \<le> e0 then b * 2 ^ nat e0 \<le> a else b \<le> a * 2 ^ nat (- e0))
                 then e0 else e0 - 1);
            u = max e (- 1022) - 52;
            n = (if 0 \<le> u then roundHalfEven a (b * 2 ^ nat u)
                 else roundHalfEven (a * 2 ^ nat (- u)) b)
        in if 0 \<le> u \<and> 2 ^ 1024 \<le> n * 2 ^ nat u then Infinity
           else Finite (of_int n * pow2 u))"

definition digitVal :: "char \<Rightarrow> int" where
  "digitVal c =
     (let n = (of_char c :: int)
      in if 48 \<le> n \<and> n \<le> 57 then n - 48
         else if 97 \<le> n \<and> n \<le> 102 then n - 87
         else if 65 \<le> n \<and> n \<le> 70 then n - 55
         else 0)"

definition digitsVal :: "int \<Rightarrow> string \<Rightarrow> int" where
  "digitsVal base ds = foldl (\<lambda>acc c. acc * base + digitVal c) 0 ds"

text \<open>
  The double for the decimal digits \<open>ds\<close> times \<open>10 ^ k\<close>. (For a literal of more than 20
  significant digits the language lets an implementation round from the first 20; the
  engines round the digits as they are, and so does this.)
\<close>

definition decimalToDouble :: "string \<Rightarrow> int \<Rightarrow> number" where
  "decimalToDouble ds k =
     (if 0 \<le> k then toDouble (digitsVal 10 ds * 10 ^ nat k) 1
      else toDouble (digitsVal 10 ds) (10 ^ nat (- k)))"

text \<open>
  \<^verbatim>\<open>ExponentPart\<close> (optional): nothing, or \<open>e\<close>/\<open>E\<close>, an optional sign and at least
  one digit, up to the end of the text.
\<close>

definition exponentPart :: "string \<Rightarrow> int option" where
  "exponentPart s =
     (case s of
        [] \<Rightarrow> Some 0
      | c # t \<Rightarrow>
          if c = CHR ''e'' \<or> c = CHR ''E'' then
            (case t of
               [] \<Rightarrow> None
             | d # u \<Rightarrow>
                 if d = CHR ''+'' then
                   (if u \<noteq> [] \<and> list_all isDigit u then Some (digitsVal 10 u) else None)
                 else if d = CHR ''-'' then
                   (if u \<noteq> [] \<and> list_all isDigit u then Some (- digitsVal 10 u) else None)
                 else
                   (if list_all isDigit t then Some (digitsVal 10 t) else None))
          else None)"

text \<open>\<^verbatim>\<open>StrUnsignedDecimalLiteral\<close>: \<open>Infinity\<close>, \<open>12\<close>, \<open>12.\<close>, \<open>12.5\<close>, \<open>.5\<close>, each
  but the first with an optional exponent.\<close>

definition strUnsignedDecimalLiteral :: "string \<Rightarrow> number option" where
  "strUnsignedDecimalLiteral s =
     (if s = ''Infinity'' then Some Infinity
      else
        let ip = takeWhile isDigit s;
            r1 = dropWhile isDigit s;
            fp = (case r1 of [] \<Rightarrow> [] | c # t \<Rightarrow> if c = CHR ''.'' then takeWhile isDigit t else []);
            r2 = (case r1 of [] \<Rightarrow> [] | c # t \<Rightarrow> if c = CHR ''.'' then dropWhile isDigit t else r1)
        in if ip = [] \<and> fp = [] then None
           else (case exponentPart r2 of
                   None \<Rightarrow> None
                 | Some e \<Rightarrow>
                     Some (decimalToDouble (ip @ fp) (e - int (length fp)))))"

definition strDecimalLiteral :: "string \<Rightarrow> number option" where
  "strDecimalLiteral s =
     (case s of
        [] \<Rightarrow> None
      | c # t \<Rightarrow>
          if c = CHR ''+'' then strUnsignedDecimalLiteral t
          else if c = CHR ''-'' then map_option negate (strUnsignedDecimalLiteral t)
          else strUnsignedDecimalLiteral s)"

text \<open>\<^verbatim>\<open>NonDecimalIntegerLiteral\<close>: \<open>0b\<close>, \<open>0o\<close> or \<open>0x\<close> (either case) and digits of
  that base; no sign.\<close>

definition isBaseDigit :: "int \<Rightarrow> char \<Rightarrow> bool" where
  "isBaseDigit base c \<longleftrightarrow>
     (if base = 2 then c \<in> set ''01''
      else if base = 8 then c \<in> set ''01234567''
      else c \<in> set ''0123456789abcdefABCDEF'')"

definition nonDecimalIntegerLiteral :: "string \<Rightarrow> number option" where
  "nonDecimalIntegerLiteral s =
     (case s of
        z # p # ds \<Rightarrow>
          if z = CHR ''0'' \<and> ds \<noteq> [] then
            (let base = (if p = CHR ''b'' \<or> p = CHR ''B'' then 2
                         else if p = CHR ''o'' \<or> p = CHR ''O'' then 8
                         else if p = CHR ''x'' \<or> p = CHR ''X'' then 16
                         else (0::int))
             in if base \<noteq> 0 \<and> list_all (isBaseDigit base) ds
                then Some (toDouble (digitsVal base ds) 1) else None)
          else None
      | _ \<Rightarrow> None)"

definition strNumericLiteral :: "string \<Rightarrow> number option" where
  "strNumericLiteral s =
     (case nonDecimalIntegerLiteral s of
        Some n \<Rightarrow> Some n
      | None \<Rightarrow> strDecimalLiteral s)"

text \<open>
  \<^verbatim>\<open>StringToNumber\<close>: white space is trimmed on both sides; the empty text is 0; a text
  that is not a \<^verbatim>\<open>StrNumericLiteral\<close> is not-a-number.
\<close>

definition StringToNumber :: "string \<Rightarrow> number" where
  "StringToNumber s =
     (let t = trim s
      in if t = [] then Finite 0
         else (case strNumericLiteral t of None \<Rightarrow> NaN | Some n \<Rightarrow> n))"

text \<open>\<^verbatim>\<open>Number(v)\<close> for \<open>v\<close> a string or \<^verbatim>\<open>null\<close>: \<^verbatim>\<open>Number(null)\<close> is 0.\<close>

definition Number :: "string option \<Rightarrow> number" where
  "Number v = (case v of None \<Rightarrow> Finite 0 | Some s \<Rightarrow> StringToNumber s)"

text \<open>
  Division of two \<^verbatim>\<open>bigint\<close> values truncates towards zero. (A zero divisor throws;
  the source divides by the constant \<^verbatim>\<open>1000n\<close> only.)
\<close>

definition bigint_div :: "int \<Rightarrow> int \<Rightarrow> int" where
  "bigint_div a b = sgn a * sgn b * (\<bar>a\<bar> div \<bar>b\<bar>)"

subsection \<open>Requests, contexts and attributes\<close>

text \<open>
  \<^verbatim>\<open>request.headers\<close> is a \<^verbatim>\<open>Headers\<close> object; \<^verbatim>\<open>get(name)\<close> returns the value
  or \<^verbatim>\<open>null\<close>. It is a map from the (lower-case) header name to the value.
  \<open>req_method\<close> is \<^verbatim>\<open>request.method\<close>.
\<close>

record Request =
  req_method :: string
  url :: string
  headers :: "string \<rightharpoonup> string"

text \<open>
  \<^verbatim>\<open>set.status\<close> is optional, and is a number or the name of a status
  (\<^verbatim>\<open>keyof StatusMap\<close>).
\<close>

datatype StatusValue = StatusNumber number | StatusName string

text \<open>
  The context of Elysia, with the fields the source reads. \<open>body\<close>, \<open>query\<close> are
  passed through as they are, so their type is a parameter.
\<close>

record 'v Context =
  request :: Request
  path :: string
  body :: 'v
  query :: 'v
  set_status :: "StatusValue option"

text \<open>The keys of \<^verbatim>\<open>Attribute\<close> (\<^verbatim>\<open>types.ts\<close>), as the \<^verbatim>\<open>switch\<close> of
  \<^verbatim>\<open>buildAttrs\<close> lists them.\<close>

datatype AttributeKey =
  Ip | Method | Path | Body | Query | Time | ContentLength | Status
  | Referer | UserAgent | Duration

text \<open>
  The values an attribute can hold. \<open>VUndefined\<close> is what \<^verbatim>\<open>StatusMap[name]\<close> gives
  for a name the table does not have.
\<close>

datatype 'v AttrValue =
  VString string | VNumber number | VBigInt int | VDate int | VOpaque 'v | VUndefined

text \<open>
  The object \<^verbatim>\<open>attrs\<close>: an association list in insertion order, a key assigned
  twice keeping its place (\<open>AList.update\<close>), as the properties of an object do.
\<close>

type_synonym 'v Attrs = "(AttributeKey \<times> 'v AttrValue) list"

text \<open>\<^verbatim>\<open>!set.status\<close>: \<^verbatim>\<open>undefined\<close>, 0, not-a-number and the empty string are falsy.\<close>

definition falsyStatus :: "StatusValue option \<Rightarrow> bool" where
  "falsyStatus st =
     (case st of
        None \<Rightarrow> True
      | Some (StatusNumber n) \<Rightarrow> falsyNumber n
      | Some (StatusName s) \<Rightarrow> s = [])"

text \<open>
  One turn of the loop of \<^verbatim>\<open>buildAttrs\<close>: the \<^verbatim>\<open>switch\<close> on the key. \<open>now\<close> is
  what \<^verbatim>\<open>process.hrtime.bigint()\<close> returns and \<open>date\<close> what \<^verbatim>\<open>new Date()\<close> is, were
  they read in this turn. \<open>StatusMap\<close> is the table of Elysia, a parameter.
\<close>

definition buildAttr ::
  "(string \<rightharpoonup> number) \<Rightarrow> 'v Context \<Rightarrow> int \<Rightarrow> int \<Rightarrow> int \<Rightarrow> AttributeKey
     \<Rightarrow> 'v Attrs \<Rightarrow> 'v Attrs" where
  "buildAttr StatusMap ctx timeStart now date k attrs =
     (case k of
        Ip \<Rightarrow>
          AList.update Ip
            (VString (or_string (headers (request ctx) ''x-forwarded-for'') ''<ip?>'')) attrs
      | Method \<Rightarrow> AList.update Method (VString (req_method (request ctx))) attrs
      | Path \<Rightarrow> AList.update Path (VString (path ctx)) attrs
      | Body \<Rightarrow> AList.update Body (VOpaque (body ctx)) attrs
      | Query \<Rightarrow> AList.update Query (VOpaque (query ctx)) attrs
      | Time \<Rightarrow> AList.update Time (VDate date) attrs
      | ContentLength \<Rightarrow>
          AList.update ContentLength
            (VNumber (Number (headers (request ctx) ''content-length''))) attrs
      | Status \<Rightarrow>
          if falsyStatus (set_status ctx) then attrs
          else
            (case set_status ctx of
               None \<Rightarrow> attrs
             | Some (StatusNumber n) \<Rightarrow> AList.update Status (VNumber n) attrs
             | Some (StatusName s) \<Rightarrow>
                 AList.update Status
                   (case StatusMap s of None \<Rightarrow> VUndefined | Some n \<Rightarrow> VNumber n) attrs)
      | Referer \<Rightarrow>
          AList.update Referer
            (VString (or_string (headers (request ctx) ''referer'') ''<referer?>'')) attrs
      | UserAgent \<Rightarrow>
          AList.update UserAgent
            (VString (or_string (headers (request ctx) ''user-agent'') ''<user-agent?>'')) attrs
      | Duration \<Rightarrow>
          AList.update Duration (VBigInt (bigint_div (now - timeStart) 1000)) attrs)"

text \<open>
  The loop \<^verbatim>\<open>for (const key of reqAttrs)\<close>. The two clocks are read anew in every
  turn that needs them: \<open>hrtime i\<close> and \<open>Date_now i\<close> are the readings in turn \<open>i\<close>.
\<close>

fun buildAttrs_loop ::
  "(string \<rightharpoonup> number) \<Rightarrow> 'v Context \<Rightarrow> int \<Rightarrow> (nat \<Rightarrow> int) \<Rightarrow> (nat \<Rightarrow> int) \<Rightarrow> nat
     \<Rightarrow> AttributeKey list \<Rightarrow> 'v Attrs \<Rightarrow> 'v Attrs" where
  "buildAttrs_loop StatusMap ctx timeStart hrtime Date_now i [] attrs = attrs"
| "buildAttrs_loop StatusMap ctx timeStart hrtime Date_now i (k # ks) attrs =
     buildAttrs_loop StatusMap ctx timeStart hrtime Date_now (Suc i) ks
       (buildAttr StatusMap ctx timeStart (hrtime i) (Date_now i) k attrs)"

definition buildAttrs ::
  "(string \<rightharpoonup> number) \<Rightarrow> (nat \<Rightarrow> int) \<Rightarrow> (nat \<Rightarrow> int) \<Rightarrow> 'v Context \<Rightarrow> AttributeKey list
     \<Rightarrow> int \<Rightarrow> 'v Attrs" where
  "buildAttrs StatusMap hrtime Date_now ctx reqAttrs timeStart =
     buildAttrs_loop StatusMap ctx timeStart hrtime Date_now 0 reqAttrs []"

subsection \<open>Colours and the removal of ANSI codes\<close>

datatype LogType = LHttp | LInfo | LWarn | LDebug | LError

definition typeName :: "LogType \<Rightarrow> string" where
  "typeName t =
     (case t of LHttp \<Rightarrow> ''http'' | LInfo \<Rightarrow> ''info'' | LWarn \<Rightarrow> ''warn''
      | LDebug \<Rightarrow> ''debug'' | LError \<Rightarrow> ''error'')"

text \<open>
  The library \<^verbatim>\<open>chalk\<close> is not part of the repository: the styles the source uses are
  parameters. \<open>hex c\<close> is the style \<^verbatim>\<open>chalk.hex(c)\<close>.
\<close>

record Chalk =
  bgBlack :: "string \<Rightarrow> string"
  bgBlue :: "string \<Rightarrow> string"
  bgGreen :: "string \<Rightarrow> string"
  bgYellow :: "string \<Rightarrow> string"
  bgCyan :: "string \<Rightarrow> string"
  bgRed :: "string \<Rightarrow> string"
  hex :: "string \<Rightarrow> string \<Rightarrow> string"

type_synonym LogLevelColour = "LogType \<rightharpoonup> string"

text \<open>
  \<^verbatim>\<open>(colourDef[type] && chalk.hex(colourDef[type]!)) || dflt\<close>: the override when the
  entry is there and not the empty string, the default style otherwise.
\<close>

definition hexOr :: "Chalk \<Rightarrow> string option \<Rightarrow> (string \<Rightarrow> string) \<Rightarrow> string \<Rightarrow> string" where
  "hexOr chalk entry dflt =
     (case entry of None \<Rightarrow> dflt | Some c \<Rightarrow> if c = [] then dflt else hex chalk c)"

text \<open>
  \<^verbatim>\<open>colourLogType\<close>. The style starts as \<^verbatim>\<open>chalk.bgBlack\<close> and every case of the
  \<^verbatim>\<open>switch\<close> assigns it, so the start value is never the one applied.
\<close>

definition colourLogType :: "Chalk \<Rightarrow> LogType \<Rightarrow> LogLevelColour \<Rightarrow> string" where
  "colourLogType chalk type colourDef =
     (let bgColour =
            (case type of
               LHttp \<Rightarrow> hexOr chalk (colourDef type) (bgBlue chalk)
             | LInfo \<Rightarrow> hexOr chalk (colourDef type) (bgGreen chalk)
             | LWarn \<Rightarrow> hexOr chalk (colourDef type) (bgYellow chalk)
             | LDebug \<Rightarrow> hexOr chalk (colourDef type) (bgCyan chalk)
             | LError \<Rightarrow> hexOr chalk (colourDef type) (bgRed chalk));
          withSpaces = '' '' @ toUpperCase (typeName type) @ '' ''
      in bgColour withSpaces)"

text \<open>
  The pattern \<^verbatim>\<open>/\u001b\[\d*m/\<close> tried at the start of a text: ESC, \<open>[\<close>, as many digits
  as there are, \<open>m\<close>. The result is the text after the match. (No digit is \<open>m\<close>, so
  giving digits back never helps.)
\<close>

definition matchAnsi :: "string \<Rightarrow> string option" where
  "matchAnsi s =
     (case s of
        e # b # t \<Rightarrow>
          if e = ESC \<and> b = CHR ''['' then
            (case dropWhile isDigit t of
               [] \<Rightarrow> None
             | m # r \<Rightarrow> if m = CHR ''m'' then Some r else None)
          else None
      | _ \<Rightarrow> None)"

text \<open>
  \<^verbatim>\<open>text.replace(/\u001b\[\d*m/g, "")\<close>: one pass from left to right; a match is
  dropped and the scan goes on behind it, so what the pass leaves is not scanned again.
\<close>

function replaceAnsi :: "string \<Rightarrow> string" where
  "replaceAnsi [] = []"
| "replaceAnsi (c # cs) =
     (case matchAnsi (c # cs) of
        Some r \<Rightarrow> replaceAnsi r
      | None \<Rightarrow> c # replaceAnsi cs)"
  by pat_completeness auto
termination
proof (relation "measure length")
  show "wf (measure length)" by simp
next
  fix c :: char and cs r :: string
  assume m: "matchAnsi (c # cs) = Some r"
  then obtain b t where cs: "cs = b # t"
    by (cases cs) (auto simp: matchAnsi_def)
  from m cs obtain x where "dropWhile isDigit t = x # r"
    by (auto simp: matchAnsi_def split: list.splits if_splits)
  then have "length r < length (dropWhile isDigit t)" by simp
  also have "\<dots> \<le> length t" by (rule length_dropWhile_le)
  finally show "(r, c # cs) \<in> measure length" using cs by simp
next
  fix c :: char and cs :: string
  show "(cs, c # cs) \<in> measure length" by simp
qed

definition removeAnsi :: "string \<Rightarrow> string" where
  "removeAnsi text = trimStart (replaceAnsi text)"

text \<open>A text has an ANSI code when the pattern of the source matches somewhere in it.\<close>

fun hasAnsi :: "string \<Rightarrow> bool" where
  "hasAnsi [] = False"
| "hasAnsi (c # cs) = (matchAnsi (c # cs) \<noteq> None \<or> hasAnsi cs)"

subsection \<open>The logger\<close>

text \<open>
  A \<^verbatim>\<open>BunFile\<close>: the three standard streams, compared by identity, or a file with
  its \<^verbatim>\<open>name\<close> (absent for a file opened by descriptor). The source takes a
  destination without a name for stdout or stderr.
\<close>

datatype BunFile = Stdin | Stdout | Stderr | File "string option"

fun name :: "BunFile \<Rightarrow> string option" where
  "name (File n) = n"
| "name _ = None"

datatype error = JSError string

text \<open>What a call does to the outside: \<^verbatim>\<open>Bun.write(dest, data)\<close> and
  \<^verbatim>\<open>fs.appendFile(name, data, ...)\<close>, in the order they are issued.\<close>

datatype Effect = BunWrite BunFile string | AppendFile string string

record LogesticOptions =
  dest :: "BunFile option"
  showLevel :: "bool option"
  logLevelColour :: "LogLevelColour option"
  httpLogging :: "bool option"
  explicitLogging :: "bool option"

record Logestic =
  requestedAttrs :: "AttributeKey list"
  dest :: BunFile
  showLevel :: bool
  logLevelColour :: LogLevelColour
  httpLogging :: bool
  explicitLogging :: bool

text \<open>
  \<^verbatim>\<open>setDest\<close>: the destination that \<^verbatim>\<open>this.dest\<close> holds once it is assigned. For
  stdout and stderr the source assigns it at once. For a file it assigns it when the
  promise of \<^verbatim>\<open>createFileIfNotExists\<close> resolves; until then \<^verbatim>\<open>this.dest\<close> is
  undefined, and a call of the writer in that window (it throws inside the \<^verbatim>\<open>async\<close>
  writer and writes nothing) is outside the model: a \<open>Logestic\<close> with a file as \<open>dest\<close>
  is the instance after the assignment.
\<close>

definition setDest :: "BunFile \<Rightarrow> error + BunFile" where
  "setDest d =
     (if d = Stdin
      then Inl (JSError ''Cannot log to stdin. Please provide a writable destination.'')
      else Inr d)"

definition constructor :: "LogesticOptions \<Rightarrow> error + Logestic" where
  "constructor options =
     (case setDest (case LogesticOptions.dest options of None \<Rightarrow> Stdout | Some d \<Rightarrow> d) of
        Inl e \<Rightarrow> Inl e
      | Inr d \<Rightarrow>
          Inr \<lparr> requestedAttrs = [],
                dest = d,
                showLevel = or_bool (LogesticOptions.showLevel options) False,
                logLevelColour =
                  (case LogesticOptions.logLevelColour options of
                     None \<Rightarrow> Map.empty | Some m \<Rightarrow> m),
                httpLogging = or_bool (LogesticOptions.httpLogging options) True,
                explicitLogging = or_bool (LogesticOptions.explicitLogging options) True \<rparr>)"

text \<open>\<^verbatim>\<open>use\<close>, for an array of keys; a single key is the array of that key.\<close>

definition use :: "Logestic \<Rightarrow> AttributeKey list \<Rightarrow> Logestic" where
  "use this attrs = this\<lparr>requestedAttrs := requestedAttrs this @ attrs\<rparr>"

text \<open>\<^verbatim>\<open>log\<close>: the writer. The state is the list of effects issued so far.\<close>

definition log :: "Logestic \<Rightarrow> string \<Rightarrow> Effect list \<Rightarrow> Effect list" where
  "log this msg w =
     (if msg = [] then w
      else
        let msgNewLine = msg @ newline
        in (case name (dest this) of
              None \<Rightarrow> w @ [BunWrite (dest this) msgNewLine]
            | Some n \<Rightarrow>
                if n = [] then w @ [BunWrite (dest this) msgNewLine]
                else w @ [AppendFile n (removeAnsi msgNewLine)]))"

text \<open>The four explicit entry points.\<close>

definition info :: "Chalk \<Rightarrow> Logestic \<Rightarrow> string \<Rightarrow> Effect list \<Rightarrow> Effect list" where
  "info chalk this msg w =
     (if \<not> explicitLogging this then w
      else
        let msg' = (if showLevel this
                    then colourLogType chalk LInfo (logLevelColour this) @ '' '' @ msg
                    else msg)
        in log this msg' w)"

definition warn :: "Chalk \<Rightarrow> Logestic \<Rightarrow> string \<Rightarrow> Effect list \<Rightarrow> Effect list" where
  "warn chalk this msg w =
     (if \<not> explicitLogging this then w
      else
        let msg' = (if showLevel this
                    then colourLogType chalk LWarn (logLevelColour this) @ '' '' @ msg
                    else msg)
        in log this msg' w)"

definition debug :: "Chalk \<Rightarrow> Logestic \<Rightarrow> string \<Rightarrow> Effect list \<Rightarrow> Effect list" where
  "debug chalk this msg w =
     (if \<not> explicitLogging this then w
      else
        let msg' = (if showLevel this
                    then colourLogType chalk LDebug (logLevelColour this) @ '' '' @ msg
                    else msg)
        in log this msg' w)"

definition error :: "Chalk \<Rightarrow> Logestic \<Rightarrow> string \<Rightarrow> Effect list \<Rightarrow> Effect list" where
  "error chalk this msg w =
     (if \<not> explicitLogging this then w
      else
        let msg' = (if showLevel this
                    then colourLogType chalk LError (logLevelColour this) @ '' '' @ msg
                    else msg)
        in log this msg' w)"

subsection \<open>The hooks that \<^verbatim>\<open>format\<close> installs\<close>

text \<open>
  \<^verbatim>\<open>Callback\<close> (\<^verbatim>\<open>types.ts\<close>): \<open>onRequest\<close> is optional. \<open>onFailure\<close> takes the
  request, the error, the code and the date of the failure.
\<close>

record 'v Callback =
  onRequest :: "(Request \<Rightarrow> string) option"
  onSuccess :: "'v Attrs \<Rightarrow> string"
  onFailure :: "Request \<Rightarrow> 'v \<Rightarrow> 'v \<Rightarrow> int \<Rightarrow> string"

text \<open>
  The hook \<^verbatim>\<open>onRequest\<close>: stores the reading \<open>now\<close> of the clock in
  \<^verbatim>\<open>store.logestic_timeStart\<close> (the first component of the result) and logs the
  request line when there is a callback for it.
\<close>

definition format_onRequest ::
  "Chalk \<Rightarrow> Logestic \<Rightarrow> 'v Callback \<Rightarrow> int \<Rightarrow> Request \<Rightarrow> Effect list \<Rightarrow> int \<times> Effect list" where
  "format_onRequest chalk this formatAttr now req w =
     (now,
      (case onRequest formatAttr of
         None \<Rightarrow> w
       | Some f \<Rightarrow>
           let msg = f req;
               msg' = (if showLevel this
                       then colourLogType chalk LHttp (logLevelColour this) @ '' '' @ msg
                       else msg)
           in log this msg' w))"

text \<open>The hook \<^verbatim>\<open>onAfterResponse\<close>, for a request that completed.\<close>

definition format_onAfterResponse ::
  "Chalk \<Rightarrow> (string \<rightharpoonup> number) \<Rightarrow> (nat \<Rightarrow> int) \<Rightarrow> (nat \<Rightarrow> int) \<Rightarrow> Logestic \<Rightarrow> 'v Callback
     \<Rightarrow> 'v Context \<Rightarrow> int \<Rightarrow> Effect list \<Rightarrow> Effect list" where
  "format_onAfterResponse chalk StatusMap hrtime Date_now this formatAttr ctx logestic_timeStart w =
     (if \<not> httpLogging this then w
      else
        let attrs = buildAttrs StatusMap hrtime Date_now ctx (requestedAttrs this)
                      logestic_timeStart;
            msg = onSuccess formatAttr attrs;
            msg' = (if showLevel this
                    then colourLogType chalk LHttp (logLevelColour this) @ '' '' @ msg
                    else msg)
        in log this msg' w)"

text \<open>The hook \<^verbatim>\<open>onError\<close>, for a request whose handling threw.\<close>

definition format_onError ::
  "Chalk \<Rightarrow> Logestic \<Rightarrow> 'v Callback \<Rightarrow> Request \<Rightarrow> 'v \<Rightarrow> 'v \<Rightarrow> int \<Rightarrow> Effect list
     \<Rightarrow> Effect list" where
  "format_onError chalk this formatAttr req err code datetime w =
     (let msg = onFailure formatAttr req err code datetime;
          msg' = (if showLevel this
                  then colourLogType chalk LError (logLevelColour this) @ '' '' @ msg
                  else msg)
      in log this msg' w)"

subsection \<open>Sample inputs\<close>

text \<open>A \<^verbatim>\<open>chalk\<close> without colour support: every style returns its text unchanged.\<close>

definition plainStyle :: "string \<Rightarrow> string" where
  "plainStyle s = s"

definition plainHex :: "string \<Rightarrow> string \<Rightarrow> string" where
  "plainHex c s = s"

definition plainChalk :: Chalk where
  "plainChalk =
     \<lparr> bgBlack = plainStyle, bgBlue = plainStyle, bgGreen = plainStyle,
       bgYellow = plainStyle, bgCyan = plainStyle, bgRed = plainStyle, hex = plainHex \<rparr>"

text \<open>\<^verbatim>\<open>new Logestic({ explicitLogging: false })\<close> and
  \<^verbatim>\<open>new Logestic({ httpLogging: false })\<close>.\<close>

definition optionsExplicitOff :: LogesticOptions where
  "optionsExplicitOff =
     \<lparr> LogesticOptions.dest = None, showLevel = None, logLevelColour = None,
       httpLogging = None, explicitLogging = Some False \<rparr>"

definition optionsHttpOff :: LogesticOptions where
  "optionsHttpOff =
     \<lparr> LogesticOptions.dest = None, showLevel = None, logLevelColour = None,
       httpLogging = Some False, explicitLogging = None \<rparr>"

definition optionsStdin :: LogesticOptions where
  "optionsStdin =
     \<lparr> LogesticOptions.dest = Some Stdin, showLevel = Some True, logLevelColour = None,
       httpLogging = Some False, explicitLogging = Some False \<rparr>"

text \<open>The instances that the constructor returns for the standard output and for the
  file \<^verbatim>\<open>app.log\<close>.\<close>

definition stdoutLogger :: Logestic where
  "stdoutLogger =
     \<lparr> requestedAttrs = [], dest = Stdout, showLevel = False, logLevelColour = Map.empty,
       httpLogging = True, explicitLogging = True \<rparr>"

definition fileLogger :: Logestic where
  "fileLogger =
     \<lparr> requestedAttrs = [], dest = File (Some ''app.log''), showLevel = False,
       logLevelColour = Map.empty, httpLogging = True, explicitLogging = True \<rparr>"

text \<open>A request \<^verbatim>\<open>GET /x\<close> without headers; its context once with the status 200, once
  with the status 0.\<close>

definition sampleRequest :: Request where
  "sampleRequest = \<lparr> req_method = ''GET'', url = ''/x'', headers = Map.empty \<rparr>"

definition sampleContext :: "unit Context" where
  "sampleContext =
     \<lparr> request = sampleRequest, path = ''/x'', body = (), query = (),
       set_status = Some (StatusNumber (Finite 200)) \<rparr>"

definition zeroStatusContext :: "unit Context" where
  "zeroStatusContext =
     \<lparr> request = sampleRequest, path = ''/x'', body = (), query = (),
       set_status = Some (StatusNumber (Finite 0)) \<rparr>"

text \<open>The same request with the headers \<^verbatim>\<open>content-length: abc\<close> and \<^verbatim>\<open>referer:\<close>
  (an empty value).\<close>

definition headerContext :: "unit Context" where
  "headerContext =
     \<lparr> request = \<lparr> req_method = ''GET'', url = ''/x'',
                    headers = [''content-length'' \<mapsto> ''abc'', ''referer'' \<mapsto> []] \<rparr>,
       path = ''/x'', body = (), query = (),
       set_status = Some (StatusNumber (Finite 200)) \<rparr>"

text \<open>The same request with the header \<^verbatim>\<open>content-length:\<close> (an empty value).\<close>

definition emptyLengthContext :: "unit Context" where
  "emptyLengthContext =
     \<lparr> request = \<lparr> req_method = ''GET'', url = ''/x'',
                    headers = [''content-length'' \<mapsto> []] \<rparr>,
       path = ''/x'', body = (), query = (),
       set_status = Some (StatusNumber (Finite 200)) \<rparr>"

definition sampleStatusMap :: "string \<rightharpoonup> number" where
  "sampleStatusMap = [''OK'' \<mapsto> Finite 200, ''Not Found'' \<mapsto> Finite 404]"

text \<open>Clocks: the request started at 1000 ns; turn \<open>i\<close> of the loop reads
  \<open>3500 + 2000 * i\<close> ns.\<close>

definition sampleClock :: "nat \<Rightarrow> int" where
  "sampleClock i = 3500 + 2000 * int i"

definition showAttr :: "unit AttrValue option \<Rightarrow> string" where
  "showAttr v = (case v of Some (VString s) \<Rightarrow> s | _ \<Rightarrow> ''-'')"

definition sampleOnSuccess :: "unit Attrs \<Rightarrow> string" where
  "sampleOnSuccess attrs = showAttr (map_of attrs Method) @ '' '' @ showAttr (map_of attrs Path)"

definition sampleOnFailure :: "Request \<Rightarrow> unit \<Rightarrow> unit \<Rightarrow> int \<Rightarrow> string" where
  "sampleOnFailure req err code datetime = ''failed '' @ req_method req @ '' '' @ url req"

definition silentOnFailure :: "Request \<Rightarrow> unit \<Rightarrow> unit \<Rightarrow> int \<Rightarrow> string" where
  "silentOnFailure req err code datetime = []"

definition sampleOnRequest :: "Request \<Rightarrow> string" where
  "sampleOnRequest req = req_method req @ '' '' @ url req"

definition sampleCallback :: "unit Callback" where
  "sampleCallback =
     \<lparr> onRequest = None, onSuccess = sampleOnSuccess, onFailure = sampleOnFailure \<rparr>"

definition silentCallback :: "unit Callback" where
  "silentCallback =
     \<lparr> onRequest = None, onSuccess = sampleOnSuccess, onFailure = silentOnFailure \<rparr>"

text \<open>A message in true colour, as \<^verbatim>\<open>chalk.hex("#ff0000")("red")\<close> gives it on a terminal
  with 16 million colours, and a message with one code inside another.\<close>

definition trueColourMessage :: string where
  "trueColourMessage = [ESC] @ ''[38;2;255;0;0mred'' @ [ESC] @ ''[39m''"

definition nestedMessage :: string where
  "nestedMessage = [ESC, ESC] @ ''[1m[0mhello''"

section \<open>Properties\<close>

subsection \<open>The constructor and its two switches\<close>

lemma constructor_flags:
  "constructor options = Inr this \<Longrightarrow> httpLogging this \<and> explicitLogging this"
  by (auto simp: constructor_def or_bool_def split: sum.splits option.splits)

text \<open>
  Claim C1. With \<^verbatim>\<open>explicitLogging: false\<close> the four explicit operations should
  write nothing. The code does write: \<^verbatim>\<open>options.explicitLogging || true\<close> is
  \<^verbatim>\<open>true\<close> for every option, so the guard of \<open>info\<close>, \<open>warn\<close>, \<open>debug\<close> and
  \<open>error\<close> never fires. Evaluated at \<^verbatim>\<open>new Logestic({ explicitLogging: false })\<close>:
  each call issues a write of its message to the standard output.
\<close>

theorem explicitLogging_false_still_writes:
  "constructor optionsExplicitOff = Inr stdoutLogger
   \<and> info plainChalk stdoutLogger ''hello'' [] = [BunWrite Stdout (''hello'' @ newline)]
   \<and> warn plainChalk stdoutLogger ''hello'' [] = [BunWrite Stdout (''hello'' @ newline)]
   \<and> debug plainChalk stdoutLogger ''hello'' [] = [BunWrite Stdout (''hello'' @ newline)]
   \<and> error plainChalk stdoutLogger ''hello'' [] = [BunWrite Stdout (''hello'' @ newline)]"
  by (simp add: constructor_def setDest_def or_bool_def optionsExplicitOff_def stdoutLogger_def
      info_def warn_def debug_def error_def log_def)

text \<open>
  Claim C2. With \<^verbatim>\<open>httpLogging: false\<close> the hook for completed requests should write
  nothing. The code does write: \<^verbatim>\<open>options.httpLogging || true\<close> is \<^verbatim>\<open>true\<close> for
  every option. Evaluated at \<^verbatim>\<open>new Logestic({ httpLogging: false }).use(["method",
  "path"])\<close> and a completed request \<^verbatim>\<open>GET /x\<close>: one line is written.
\<close>

theorem httpLogging_false_still_writes:
  "constructor optionsHttpOff = Inr stdoutLogger
   \<and> format_onAfterResponse plainChalk sampleStatusMap sampleClock sampleClock
        (use stdoutLogger [Method, Path]) sampleCallback sampleContext 1000 []
       = [BunWrite Stdout (''GET /x'' @ newline)]"
  by (simp add: constructor_def setDest_def or_bool_def optionsHttpOff_def stdoutLogger_def
      format_onAfterResponse_def use_def buildAttrs_def buildAttr_def log_def
      sampleCallback_def sampleOnSuccess_def showAttr_def sampleContext_def sampleRequest_def)

text \<open>
  Claim C7. Constructing an instance whose destination is the standard input throws, whatever
  the other options are.
\<close>

theorem constructor_stdin_throws:
  "LogesticOptions.dest options = Some Stdin \<Longrightarrow>
     constructor options =
       Inl (JSError ''Cannot log to stdin. Please provide a writable destination.'')"
  by (simp add: constructor_def setDest_def)

theorem constructor_stdin_throws_witness:
  "LogesticOptions.dest optionsStdin = Some Stdin
   \<and> constructor optionsStdin =
       Inl (JSError ''Cannot log to stdin. Please provide a writable destination.'')"
proof -
  have h: "LogesticOptions.dest optionsStdin = Some Stdin"
    by (simp add: optionsStdin_def)
  show ?thesis using h constructor_stdin_throws [OF h] by simp
qed

subsection \<open>The attribute set built by \<open>buildAttrs\<close>\<close>

text \<open>One turn of the loop touches the key of that turn only.\<close>

lemma buildAttr_other:
  "k \<noteq> k' \<Longrightarrow> map_of (buildAttr StatusMap ctx t0 now date k' attrs) k = map_of attrs k"
  by (cases k')
     (auto simp: buildAttr_def update_conv' split: option.splits StatusValue.splits)

lemma buildAttr_keys:
  "fst ` set (buildAttr StatusMap ctx t0 now date k attrs) =
     fst ` set attrs \<union> (if k = Status \<and> falsyStatus (set_status ctx) then {} else {k})"
  by (cases k)
     (auto simp: buildAttr_def dom_update falsyStatus_def
           split: option.splits StatusValue.splits)

lemma buildAttr_distinct:
  "distinct (map fst attrs) \<Longrightarrow>
     distinct (map fst (buildAttr StatusMap ctx t0 now date k attrs))"
  by (cases k)
     (auto simp: buildAttr_def distinct_update split: option.splits StatusValue.splits)

lemma loop_keys:
  "fst ` set (buildAttrs_loop StatusMap ctx t0 hrtime Date_now i ks attrs) =
     fst ` set attrs \<union> (set ks - (if falsyStatus (set_status ctx) then {Status} else {}))"
  by (induction ks arbitrary: i attrs) (auto simp: buildAttr_keys split: if_splits)

lemma loop_distinct:
  "distinct (map fst attrs) \<Longrightarrow>
     distinct (map fst (buildAttrs_loop StatusMap ctx t0 hrtime Date_now i ks attrs))"
  by (induction ks arbitrary: i attrs) (auto simp: buildAttr_distinct)

lemma loop_notin:
  "k \<notin> set ks \<Longrightarrow>
     map_of (buildAttrs_loop StatusMap ctx t0 hrtime Date_now i ks attrs) k = map_of attrs k"
  by (induction ks arbitrary: i attrs) (auto simp: buildAttr_other)

text \<open>A key whose turn stores the same value whatever the clocks read has that value
  at the end, however often it was requested.\<close>

lemma loop_const:
  assumes "k \<in> set ks"
    and "\<And>now date attrs. map_of (buildAttr StatusMap ctx t0 now date k attrs) k = Some v"
  shows "map_of (buildAttrs_loop StatusMap ctx t0 hrtime Date_now i ks attrs) k = Some v"
  using assms(1)
proof (induction ks arbitrary: i attrs)
  case Nil
  then show ?case by simp
next
  case (Cons a ks)
  show ?case
  proof (cases "k \<in> set ks")
    case True
    then show ?thesis using Cons.IH by simp
  next
    case False
    with Cons.prems have "a = k" by simp
    with False show ?thesis by (simp add: loop_notin assms(2))
  qed
qed

text \<open>The duration is the one computed in the last turn that asks for it.\<close>

lemma loop_duration:
  assumes "Duration \<in> set ks"
  shows "\<exists>j<length ks. ks ! j = Duration
           \<and> (\<forall>j'. j < j' \<and> j' < length ks \<longrightarrow> ks ! j' \<noteq> Duration)
           \<and> map_of (buildAttrs_loop StatusMap ctx t0 hrtime Date_now i ks attrs) Duration =
               Some (VBigInt (bigint_div (hrtime (i + j) - t0) 1000))"
  using assms
proof (induction ks arbitrary: i attrs)
  case Nil
  then show ?case by simp
next
  case (Cons a ks)
  let ?attrs' = "buildAttr StatusMap ctx t0 (hrtime i) (Date_now i) a attrs"
  show ?case
  proof (cases "Duration \<in> set ks")
    case True
    from Cons.IH[OF True, of "Suc i" ?attrs']
    obtain j where j: "j < length ks" "ks ! j = Duration"
      "\<forall>j'. j < j' \<and> j' < length ks \<longrightarrow> ks ! j' \<noteq> Duration"
      "map_of (buildAttrs_loop StatusMap ctx t0 hrtime Date_now (Suc i) ks ?attrs') Duration =
         Some (VBigInt (bigint_div (hrtime (Suc i + j) - t0) 1000))"
      by blast
    have "\<forall>j'. Suc j < j' \<and> j' < length (a # ks) \<longrightarrow> (a # ks) ! j' \<noteq> Duration"
    proof (intro allI impI)
      fix j' assume h: "Suc j < j' \<and> j' < length (a # ks)"
      then obtain m where m: "j' = Suc m" by (cases j') auto
      with h j(3) show "(a # ks) ! j' \<noteq> Duration" by simp
    qed
    with j show ?thesis
      by (intro exI[of _ "Suc j"]) simp
  next
    case False
    with Cons.prems have a: "a = Duration" by simp
    have "\<forall>j'. 0 < j' \<and> j' < length (a # ks) \<longrightarrow> (a # ks) ! j' \<noteq> Duration"
    proof (intro allI impI)
      fix j' assume h: "0 < j' \<and> j' < length (a # ks)"
      then obtain m where m: "j' = Suc m" by (cases j') auto
      with h have "ks ! m \<in> set ks" by simp
      with False m show "(a # ks) ! j' \<noteq> Duration" by auto
    qed
    moreover have "map_of (buildAttrs_loop StatusMap ctx t0 hrtime Date_now i (a # ks) attrs) Duration =
       Some (VBigInt (bigint_div (hrtime (i + 0) - t0) 1000))"
      using a False by (simp add: loop_notin) (simp add: buildAttr_def update_conv')
    ultimately show ?thesis using a
      by (intro exI[of _ 0]) simp
  qed
qed

lemma bigint_div_nonneg: "0 \<le> a \<Longrightarrow> bigint_div a 1000 = a div 1000"
  by (cases "a = 0") (simp_all add: bigint_div_def)

text \<open>Two contexts on which every turn agrees give the same attribute set.\<close>

lemma loop_cong:
  assumes "\<And>now date k attrs.
             buildAttr StatusMap ctx t0 now date k attrs = buildAttr StatusMap ctx' t0 now date k attrs"
  shows "buildAttrs_loop StatusMap ctx t0 hrtime Date_now i ks attrs =
         buildAttrs_loop StatusMap ctx' t0 hrtime Date_now i ks attrs"
  by (induction ks arbitrary: i attrs) (simp_all add: assms)

text \<open>
  The conversion of a text to a number rounds to the nearest double: beyond the largest
  double it is infinite, below the smallest it is zero, and an integer that needs more
  than 53 binary digits loses the last ones.
\<close>

lemmas number_eval =
  Number_def StringToNumber_def trim_def trimStart_def trimEnd_def isWhiteSpace_def
  strNumericLiteral_def nonDecimalIntegerLiteral_def strDecimalLiteral_def
  strUnsignedDecimalLiteral_def isDigit_def isBaseDigit_def exponentPart_def
  decimalToDouble_def digitsVal_def digitVal_def toDouble_def bitLength.simps
  roundHalfEven_def pow2_def negate_def Let_def

lemma Number_overflow: "Number (Some ''1e400'') = Infinity"
  by (simp add: number_eval)

lemma Number_underflow: "Number (Some ''1e-400'') = Finite 0"
  by (simp add: number_eval)

lemma Number_53_digits: "Number (Some ''9007199254740993'') = Finite 9007199254740992"
  by (simp add: number_eval)

lemma Number_negative_zero: "Number (Some ''-0'') = NegZero"
  by (simp add: number_eval)

lemma Number_exact: "Number (Some ''0.5'') = Finite (1 / 2) \<and> Number (Some ''0x1F'') = Finite 31"
  by (simp add: number_eval)

text \<open>
  Claim C3, as stated: when the header \<^verbatim>\<open>content-length\<close> is absent or is not a valid
  number, the attribute \<open>contentLength\<close> is not-a-number. It fails for the absent header:
  \<^verbatim>\<open>headers.get\<close> returns \<^verbatim>\<open>null\<close> and \<^verbatim>\<open>Number(null)\<close> is 0. It fails as well for
  a header that is present with an empty text: \<^verbatim>\<open>Number("")\<close> is 0.
\<close>

theorem contentLength_absent_counterexample:
  "headers (request sampleContext) ''content-length'' = None
   \<and> map_of (buildAttrs sampleStatusMap sampleClock sampleClock sampleContext
               [ContentLength] 1000) ContentLength = Some (VNumber (Finite 0))
   \<and> map_of (buildAttrs sampleStatusMap sampleClock sampleClock sampleContext
               [ContentLength] 1000) ContentLength \<noteq> Some (VNumber NaN)
   \<and> headers (request emptyLengthContext) ''content-length'' = Some []
   \<and> map_of (buildAttrs sampleStatusMap sampleClock sampleClock emptyLengthContext
               [ContentLength] 1000) ContentLength = Some (VNumber (Finite 0))"
  by (simp add: buildAttrs_def buildAttr_def Number_def StringToNumber_def trim_def
      trimStart_def trimEnd_def sampleContext_def sampleRequest_def emptyLengthContext_def)

text \<open>
  Claim C3, amended: when \<open>contentLength\<close> is requested, its value is not-a-number when the
  header is present and its text, trimmed of white space, is not empty and is not a numeric
  literal; it is 0 when the header is absent and when its text is empty or blank.
  \<open>buildAttrs\<close> has no failing branch: no exception is raised in any of the cases.
\<close>

theorem buildAttrs_contentLength:
  assumes "ContentLength \<in> set reqAttrs"
  shows "(headers (request ctx) ''content-length'' = None \<longrightarrow>
            map_of (buildAttrs StatusMap hrtime Date_now ctx reqAttrs timeStart) ContentLength =
              Some (VNumber (Finite 0)))
       \<and> (headers (request ctx) ''content-length'' = Some v \<and> trim v = [] \<longrightarrow>
            map_of (buildAttrs StatusMap hrtime Date_now ctx reqAttrs timeStart) ContentLength =
              Some (VNumber (Finite 0)))
       \<and> (headers (request ctx) ''content-length'' = Some v \<and> trim v \<noteq> []
            \<and> strNumericLiteral (trim v) = None \<longrightarrow>
            map_of (buildAttrs StatusMap hrtime Date_now ctx reqAttrs timeStart) ContentLength =
              Some (VNumber NaN))"
proof -
  have "map_of (buildAttr StatusMap ctx timeStart now date ContentLength attrs) ContentLength =
          Some (VNumber (Number (headers (request ctx) ''content-length'')))"
    for now date and attrs :: "'a Attrs"
    by (simp add: buildAttr_def update_conv')
  from loop_const[OF assms this]
  have "map_of (buildAttrs StatusMap hrtime Date_now ctx reqAttrs timeStart) ContentLength =
          Some (VNumber (Number (headers (request ctx) ''content-length'')))"
    by (simp add: buildAttrs_def)
  then show ?thesis
    by (simp add: Number_def StringToNumber_def Let_def)
qed

theorem buildAttrs_contentLength_witness:
  "map_of (buildAttrs sampleStatusMap sampleClock sampleClock headerContext
             [Method, ContentLength] 1000) ContentLength = Some (VNumber NaN)
   \<and> map_of (buildAttrs sampleStatusMap sampleClock sampleClock emptyLengthContext
               [Method, ContentLength] 1000) ContentLength = Some (VNumber (Finite 0))
   \<and> map_of (buildAttrs sampleStatusMap sampleClock sampleClock sampleContext
               [Method, ContentLength] 1000) ContentLength = Some (VNumber (Finite 0))"
proof -
  have h: "ContentLength \<in> set [Method, ContentLength]" by simp
  have t: "trim ''abc'' = ''abc''" "trim [] = []"
    by (simp_all add: trim_def trimStart_def trimEnd_def isWhiteSpace_def)
  have n: "strNumericLiteral ''abc'' = None"
    by (simp add: strNumericLiteral_def nonDecimalIntegerLiteral_def strDecimalLiteral_def
        strUnsignedDecimalLiteral_def isDigit_def)
  have v: "headers (request headerContext) ''content-length'' = Some ''abc''"
    by (simp add: headerContext_def)
  have e: "headers (request emptyLengthContext) ''content-length'' = Some []"
    by (simp add: emptyLengthContext_def)
  have a: "headers (request sampleContext) ''content-length'' = None"
    by (simp add: sampleContext_def sampleRequest_def)
  have 1: "map_of (buildAttrs sampleStatusMap sampleClock sampleClock headerContext
             [Method, ContentLength] 1000) ContentLength = Some (VNumber NaN)"
    using buildAttrs_contentLength [OF h, where ctx = headerContext and v = "''abc''"
        and StatusMap = sampleStatusMap and hrtime = sampleClock and Date_now = sampleClock
        and timeStart = 1000] v
    by (simp add: t n)
  have 2: "map_of (buildAttrs sampleStatusMap sampleClock sampleClock emptyLengthContext
             [Method, ContentLength] 1000) ContentLength = Some (VNumber (Finite 0))"
    using buildAttrs_contentLength [OF h, where ctx = emptyLengthContext and v = "[]"
        and StatusMap = sampleStatusMap and hrtime = sampleClock and Date_now = sampleClock
        and timeStart = 1000] e
    by (simp add: t)
  have 3: "map_of (buildAttrs sampleStatusMap sampleClock sampleClock sampleContext
             [Method, ContentLength] 1000) ContentLength = Some (VNumber (Finite 0))"
    using buildAttrs_contentLength [OF h, where ctx = sampleContext
        and StatusMap = sampleStatusMap and hrtime = sampleClock and Date_now = sampleClock
        and timeStart = 1000] a
    by simp
  from 1 2 3 show ?thesis by simp
qed

text \<open>
  Claim C5, as stated: the keys of the attribute set are exactly the requested ones, each
  once, but for \<open>status\<close> when the status of the response is unset. It fails for a status
  that is set to 0: \<^verbatim>\<open>!set.status\<close> holds for it and the key is left out.
\<close>

theorem status_zero_counterexample:
  "set_status zeroStatusContext \<noteq> None
   \<and> fst ` set (buildAttrs sampleStatusMap sampleClock sampleClock zeroStatusContext
                  [Status] 1000)
       \<noteq> set [Status] - (if set_status zeroStatusContext = None then {Status} else {})"
  by (simp add: buildAttrs_def buildAttr_def falsyStatus_def falsyNumber_def
      zeroStatusContext_def)

text \<open>
  Claim C5, amended: the keys of the attribute set are exactly the requested ones, no key
  twice, but for \<open>status\<close>, which is left out when the status of the response is falsy:
  unset, 0, not-a-number or the empty name.
\<close>

theorem buildAttrs_keys:
  "fst ` set (buildAttrs StatusMap hrtime Date_now ctx reqAttrs timeStart) =
     set reqAttrs - (if falsyStatus (set_status ctx) then {Status} else {})
   \<and> distinct (map fst (buildAttrs StatusMap hrtime Date_now ctx reqAttrs timeStart))"
  by (simp add: buildAttrs_def loop_keys loop_distinct)

theorem buildAttrs_keys_witness:
  "map fst (buildAttrs sampleStatusMap sampleClock sampleClock sampleContext
              [Path, Status, Method, Path] 1000) = [Path, Status, Method]
   \<and> fst ` set (buildAttrs sampleStatusMap sampleClock sampleClock zeroStatusContext
                  [Path, Status, Method, Path] 1000) = {Path, Method}"
proof -
  have a: "map fst (buildAttrs sampleStatusMap sampleClock sampleClock sampleContext
              [Path, Status, Method, Path] 1000) = [Path, Status, Method]"
    by (simp add: buildAttrs_def buildAttr_def falsyStatus_def falsyNumber_def
        sampleContext_def)
  have f: "falsyStatus (set_status zeroStatusContext)"
    by (simp add: falsyStatus_def falsyNumber_def zeroStatusContext_def)
  have "fst ` set (buildAttrs sampleStatusMap sampleClock sampleClock zeroStatusContext
                  [Path, Status, Method, Path] 1000) = {Path, Method}"
    using buildAttrs_keys [of sampleStatusMap sampleClock sampleClock zeroStatusContext
        "[Path, Status, Method, Path]" 1000] f
    by auto
  with a show ?thesis by simp
qed

text \<open>
  Claim C9. When \<open>duration\<close> is requested, the attribute is computed from the start of
  the request and the reading of the clock at the time of extraction, which is the reading
  in the last turn of the loop that asks for \<open>duration\<close>: it is the difference in
  nanoseconds divided by 1000 (\<^verbatim>\<open>bigint\<close> division), and when that reading is not before
  the start, this is the whole number of microseconds elapsed and is not negative.
\<close>

theorem buildAttrs_duration:
  assumes "Duration \<in> set reqAttrs"
  shows "\<exists>i<length reqAttrs. reqAttrs ! i = Duration
           \<and> (\<forall>j. i < j \<and> j < length reqAttrs \<longrightarrow> reqAttrs ! j \<noteq> Duration)
           \<and> map_of (buildAttrs StatusMap hrtime Date_now ctx reqAttrs timeStart) Duration =
               Some (VBigInt (bigint_div (hrtime i - timeStart) 1000))
           \<and> (timeStart \<le> hrtime i \<longrightarrow>
                 bigint_div (hrtime i - timeStart) 1000 = (hrtime i - timeStart) div 1000
                 \<and> 0 \<le> (hrtime i - timeStart) div 1000)"
proof -
  from loop_duration[OF assms, of StatusMap ctx timeStart hrtime Date_now 0 "[]"]
  obtain i where i: "i < length reqAttrs" "reqAttrs ! i = Duration"
    "\<forall>j. i < j \<and> j < length reqAttrs \<longrightarrow> reqAttrs ! j \<noteq> Duration"
    "map_of (buildAttrs StatusMap hrtime Date_now ctx reqAttrs timeStart) Duration =
       Some (VBigInt (bigint_div (hrtime i - timeStart) 1000))"
    unfolding buildAttrs_def by auto
  have "bigint_div (hrtime i - timeStart) 1000 = (hrtime i - timeStart) div 1000
        \<and> 0 \<le> (hrtime i - timeStart) div 1000" if "timeStart \<le> hrtime i"
  proof -
    from that have nn: "0 \<le> hrtime i - timeStart" by simp
    then have "bigint_div (hrtime i - timeStart) 1000 = (hrtime i - timeStart) div 1000"
      by (rule bigint_div_nonneg)
    moreover from nn have "0 \<le> (hrtime i - timeStart) div 1000" by simp
    ultimately show ?thesis by simp
  qed
  with i show ?thesis by blast
qed

theorem buildAttrs_duration_witness:
  "1000 \<le> sampleClock 0
   \<and> map_of (buildAttrs sampleStatusMap sampleClock sampleClock sampleContext
               [Duration, Path] 1000) Duration = Some (VBigInt 2)"
proof -
  have h1: "Duration \<in> set [Duration, Path]" by simp
  from buildAttrs_duration [OF h1, of sampleStatusMap sampleClock sampleClock sampleContext 1000]
  obtain i where i: "i < length [Duration, Path]" "[Duration, Path] ! i = Duration"
    "map_of (buildAttrs sampleStatusMap sampleClock sampleClock sampleContext
       [Duration, Path] 1000) Duration = Some (VBigInt (bigint_div (sampleClock i - 1000) 1000))"
    "1000 \<le> sampleClock i \<longrightarrow>
       bigint_div (sampleClock i - 1000) 1000 = (sampleClock i - 1000) div 1000"
    by blast
  from i(1,2) have i0: "i = 0" by (cases i) auto
  have c: "1000 \<le> sampleClock 0" by (simp add: sampleClock_def)
  with i(4) i0 have "bigint_div (sampleClock 0 - 1000) 1000 = (sampleClock 0 - 1000) div 1000"
    by simp
  with i(3) i0 c show ?thesis by (simp add: sampleClock_def)
qed

text \<open>
  Claim C10. A header \<^verbatim>\<open>x-forwarded-for\<close>, \<^verbatim>\<open>referer\<close> or \<^verbatim>\<open>user-agent\<close> that is
  present with the empty string as its value gives the same placeholder as an absent one,
  and the attribute set as a whole is the same for the two requests.
\<close>

theorem buildAttrs_empty_header_as_absent:
  "(Ip \<in> set reqAttrs \<and> headers (request ctx) ''x-forwarded-for'' \<in> {None, Some []} \<longrightarrow>
      map_of (buildAttrs StatusMap hrtime Date_now ctx reqAttrs timeStart) Ip =
        Some (VString ''<ip?>''))
   \<and> (Referer \<in> set reqAttrs \<and> headers (request ctx) ''referer'' \<in> {None, Some []} \<longrightarrow>
      map_of (buildAttrs StatusMap hrtime Date_now ctx reqAttrs timeStart) Referer =
        Some (VString ''<referer?>''))
   \<and> (UserAgent \<in> set reqAttrs \<and> headers (request ctx) ''user-agent'' \<in> {None, Some []} \<longrightarrow>
      map_of (buildAttrs StatusMap hrtime Date_now ctx reqAttrs timeStart) UserAgent =
        Some (VString ''<user-agent?>''))
   \<and> (n \<in> {''x-forwarded-for'', ''referer'', ''user-agent''} \<longrightarrow>
        buildAttrs StatusMap hrtime Date_now
          (ctx\<lparr>request := (request ctx)\<lparr>headers := (headers (request ctx))(n \<mapsto> [])\<rparr>\<rparr>)
          reqAttrs timeStart =
        buildAttrs StatusMap hrtime Date_now
          (ctx\<lparr>request := (request ctx)\<lparr>headers := (headers (request ctx))(n := None)\<rparr>\<rparr>)
          reqAttrs timeStart)"
proof (intro conjI impI)
  assume a: "Ip \<in> set reqAttrs \<and> headers (request ctx) ''x-forwarded-for'' \<in> {None, Some []}"
  then have "map_of (buildAttr StatusMap ctx timeStart now date Ip attrs) Ip =
               Some (VString ''<ip?>'')" for now date and attrs :: "'a Attrs"
    by (auto simp: buildAttr_def update_conv' or_string_def)
  with a show "map_of (buildAttrs StatusMap hrtime Date_now ctx reqAttrs timeStart) Ip =
                 Some (VString ''<ip?>'')"
    unfolding buildAttrs_def by (intro loop_const) auto
next
  assume a: "Referer \<in> set reqAttrs \<and> headers (request ctx) ''referer'' \<in> {None, Some []}"
  then have "map_of (buildAttr StatusMap ctx timeStart now date Referer attrs) Referer =
               Some (VString ''<referer?>'')" for now date and attrs :: "'a Attrs"
    by (auto simp: buildAttr_def update_conv' or_string_def)
  with a show "map_of (buildAttrs StatusMap hrtime Date_now ctx reqAttrs timeStart) Referer =
                 Some (VString ''<referer?>'')"
    unfolding buildAttrs_def by (intro loop_const) auto
next
  assume a: "UserAgent \<in> set reqAttrs \<and> headers (request ctx) ''user-agent'' \<in> {None, Some []}"
  then have "map_of (buildAttr StatusMap ctx timeStart now date UserAgent attrs) UserAgent =
               Some (VString ''<user-agent?>'')" for now date and attrs :: "'a Attrs"
    by (auto simp: buildAttr_def update_conv' or_string_def)
  with a show "map_of (buildAttrs StatusMap hrtime Date_now ctx reqAttrs timeStart) UserAgent =
                 Some (VString ''<user-agent?>'')"
    unfolding buildAttrs_def by (intro loop_const) auto
next
  assume n: "n \<in> {''x-forwarded-for'', ''referer'', ''user-agent''}"
  let ?e = "ctx\<lparr>request := (request ctx)\<lparr>headers := (headers (request ctx))(n \<mapsto> [])\<rparr>\<rparr>"
  let ?a = "ctx\<lparr>request := (request ctx)\<lparr>headers := (headers (request ctx))(n := None)\<rparr>\<rparr>"
  have "buildAttr StatusMap ?e timeStart now date k attrs =
        buildAttr StatusMap ?a timeStart now date k attrs"
    for now date k and attrs :: "'a Attrs"
    using n by (cases k) (auto simp: buildAttr_def or_string_def)
  then show "buildAttrs StatusMap hrtime Date_now ?e reqAttrs timeStart =
             buildAttrs StatusMap hrtime Date_now ?a reqAttrs timeStart"
    unfolding buildAttrs_def by (rule loop_cong)
qed

theorem buildAttrs_empty_header_as_absent_witness:
  "headers (request headerContext) ''referer'' = Some []
   \<and> map_of (buildAttrs sampleStatusMap sampleClock sampleClock headerContext
               [Referer, Ip] 1000) Referer = Some (VString ''<referer?>'')
   \<and> headers (request sampleContext) ''referer'' = None
   \<and> map_of (buildAttrs sampleStatusMap sampleClock sampleClock sampleContext
               [Referer, Ip] 1000) Referer = Some (VString ''<referer?>'')"
proof -
  have e: "headers (request headerContext) ''referer'' = Some []"
    by (simp add: headerContext_def)
  have a: "headers (request sampleContext) ''referer'' = None"
    by (simp add: sampleContext_def sampleRequest_def)
  show ?thesis
    using e a
      buildAttrs_empty_header_as_absent [of "[Referer, Ip]" headerContext sampleStatusMap
        sampleClock sampleClock 1000 "''referer''"]
      buildAttrs_empty_header_as_absent [of "[Referer, Ip]" sampleContext sampleStatusMap
        sampleClock sampleClock 1000 "''referer''"]
    by simp
qed

subsection \<open>The writer\<close>

lemma matchAnsi_not_ESC: "c \<noteq> ESC \<Longrightarrow> matchAnsi (c # cs) = None"
  by (simp add: matchAnsi_def split: list.splits)

lemma isWhiteSpace_not_ESC: "isWhiteSpace c \<Longrightarrow> c \<noteq> ESC"
  by (auto simp: isWhiteSpace_def ESC_def)

lemma replaceAnsi_blank: "blank s \<Longrightarrow> replaceAnsi s = s"
  by (induction s) (simp_all add: blank_def matchAnsi_not_ESC isWhiteSpace_not_ESC)

lemma blank_newline: "blank s \<Longrightarrow> blank (s @ newline)"
  by (simp add: blank_def newline_def isWhiteSpace_def)

lemma removeAnsi_blank: "blank msg \<Longrightarrow> removeAnsi (msg @ newline) = []"
proof -
  assume b: "blank msg"
  then have "replaceAnsi (msg @ newline) = msg @ newline"
    by (intro replaceAnsi_blank blank_newline)
  moreover have "dropWhile isWhiteSpace (msg @ newline) = []"
    using blank_newline[OF b] by (simp add: blank_def list_all_iff)
  ultimately show ?thesis by (simp add: removeAnsi_def trimStart_def)
qed

lemma replaceAnsi_clean: "\<not> hasAnsi s \<Longrightarrow> replaceAnsi s = s"
  by (induction s) auto

text \<open>The newline that \<open>log\<close> appends completes no code: a code ends in \<open>m\<close>.\<close>

lemma dropWhile_isDigit_newline:
  "dropWhile isDigit (t @ newline) = dropWhile isDigit t @ newline"
  by (induction t) (simp_all add: newline_def isDigit_def)

lemma matchAnsi_newline:
  "matchAnsi (s @ newline) = None \<longleftrightarrow> matchAnsi s = None"
proof (cases s)
  case Nil
  then show ?thesis by (simp add: matchAnsi_def newline_def)
next
  case s: (Cons e s')
  show ?thesis
  proof (cases s')
    case Nil
    with s show ?thesis by (simp add: matchAnsi_def newline_def)
  next
    case s': (Cons b t)
    show ?thesis
    proof (cases "dropWhile isDigit t")
      case Nil
      have "matchAnsi s = None"
        by (simp add: matchAnsi_def s s' Nil)
      moreover have "matchAnsi (s @ newline) = None"
        by (simp add: matchAnsi_def s s' dropWhile_isDigit_newline Nil)
           (simp add: newline_def)
      ultimately show ?thesis by simp
    next
      case (Cons m r)
      show ?thesis
        by (simp add: matchAnsi_def s s' dropWhile_isDigit_newline Cons)
    qed
  qed
qed

lemma hasAnsi_newline: "hasAnsi (s @ newline) = hasAnsi s"
proof (induction s)
  case Nil
  then show ?case by (simp add: newline_def matchAnsi_def)
next
  case (Cons c cs)
  have "matchAnsi ((c # cs) @ newline) = None \<longleftrightarrow> matchAnsi (c # cs) = None"
    by (rule matchAnsi_newline)
  with Cons show ?case by simp
qed

lemma removeAnsi_clean:
  assumes "msg \<noteq> []" and "\<not> hasAnsi msg" and "\<not> isWhiteSpace (hd msg)"
  shows "removeAnsi (msg @ newline) = msg @ newline"
proof -
  from assms(2) have "replaceAnsi (msg @ newline) = msg @ newline"
    by (simp add: replaceAnsi_clean hasAnsi_newline)
  moreover from assms(1,3) have "dropWhile isWhiteSpace (msg @ newline) = msg @ newline"
    by (cases msg) simp_all
  ultimately show ?thesis by (simp add: removeAnsi_def trimStart_def)
qed

lemma upper_info: "toUpperCase (typeName LInfo) = ''INFO''"
  by code_simp

text \<open>
  Claim C4. What is appended to a file should hold no ANSI escape sequence. The code removes
  the matches of \<^verbatim>\<open>/\u001b\[\d*m/g\<close> only, in one pass: a code with parameters separated
  by \<open>;\<close> (true colour, as \<^verbatim>\<open>chalk.hex\<close> writes it) stays, and so does a code that the
  pass itself puts together. Evaluated at both messages, for the file \<^verbatim>\<open>app.log\<close>: the
  text appended holds ESC, and in the second case a code of the very pattern.
\<close>

theorem removeAnsi_leaves_escape_codes:
  "log fileLogger trueColourMessage [] =
     [AppendFile ''app.log'' ([ESC] @ ''[38;2;255;0;0mred'' @ newline)]
   \<and> log fileLogger nestedMessage [] =
     [AppendFile ''app.log'' ([ESC] @ ''[0mhello'' @ newline)]
   \<and> hasAnsi ([ESC] @ ''[0mhello'' @ newline)"
  by (simp add: log_def fileLogger_def trueColourMessage_def nestedMessage_def
      removeAnsi_def trimStart_def matchAnsi_def isDigit_def isWhiteSpace_def
      ESC_def newline_def)

text \<open>
  Claim C8, as stated: a logging call with an empty or blank message writes nothing, and a
  non-empty message is appended with exactly one newline behind it. It fails in three
  ways: a blank message that is not empty is written to a stream; a file receives the
  message without its leading white space; and with \<open>showLevel\<close> an explicit call with the
  empty message writes the tag.
\<close>

theorem blank_message_counterexample:
  "blank ''  ''
   \<and> log stdoutLogger ''  '' [] = [BunWrite Stdout (''  '' @ newline)]
   \<and> log fileLogger '' a'' [] = [AppendFile ''app.log'' (''a'' @ newline)]
   \<and> info plainChalk (stdoutLogger\<lparr>showLevel := True\<rparr>) [] [] =
       [BunWrite Stdout ('' INFO  '' @ newline)]"
  by (simp add: blank_def isWhiteSpace_def log_def stdoutLogger_def fileLogger_def
      removeAnsi_def trimStart_def matchAnsi_def ESC_def newline_def
      info_def colourLogType_def hexOr_def plainChalk_def plainStyle_def upper_info)

text \<open>
  Claim C8, amended, for an instance whose destination is set. In the statement \<open>line t\<close>
  is the one effect that writes the text \<open>t\<close>: for a stream \<open>t\<close> and exactly one newline;
  for a file \<open>removeAnsi\<close> of \<open>t\<close> and the newline, which is nothing when \<open>t\<close> is blank and
  is \<open>t\<close> and exactly one newline when \<open>t\<close> has no code of the pattern and no white space
  in front. \<open>tagged T m\<close> is the message \<open>m\<close> behind the tag of \<open>T\<close> and a space when
  \<open>showLevel\<close> is on, and \<open>m\<close> otherwise.

  The writer does nothing for the empty text and issues \<open>line\<close> for every other text, a
  blank one too. With \<open>showLevel\<close> off, every logging call with the empty message, explicit
  or from a hook, does nothing. Every logging call with a message that is not empty issues
  exactly \<open>line\<close> of the tagged message (the explicit calls when explicit logging is on, the
  hook for completed requests when http logging is on). What a call with the empty message
  does when \<open>showLevel\<close> is on is not part of the statement.
\<close>

theorem logging_calls_write:
  "(let line = (\<lambda>t. case name (dest this) of
                       None \<Rightarrow> BunWrite (dest this) (t @ newline)
                     | Some n \<Rightarrow>
                         if n = [] then BunWrite (dest this) (t @ newline)
                         else AppendFile n (removeAnsi (t @ newline)));
        tagged = (\<lambda>T m. if showLevel this
                         then colourLogType chalk T (logLevelColour this) @ '' '' @ m else m);
        success = onSuccess formatAttr
                    (buildAttrs StatusMap hrtime Date_now ctx (requestedAttrs this) timeStart);
        failure = onFailure formatAttr req err code datetime
    in (log this [] w = w)
     \<and> (msg \<noteq> [] \<longrightarrow> log this msg w = w @ [line msg])
     \<and> (\<not> showLevel this \<longrightarrow>
          info chalk this [] w = w \<and> warn chalk this [] w = w
          \<and> debug chalk this [] w = w \<and> error chalk this [] w = w)
     \<and> (explicitLogging this \<and> msg \<noteq> [] \<longrightarrow>
          info chalk this msg w = w @ [line (tagged LInfo msg)]
          \<and> warn chalk this msg w = w @ [line (tagged LWarn msg)]
          \<and> debug chalk this msg w = w @ [line (tagged LDebug msg)]
          \<and> error chalk this msg w = w @ [line (tagged LError msg)])
     \<and> (onRequest formatAttr = Some f \<and> \<not> showLevel this \<and> f req = [] \<longrightarrow>
          snd (format_onRequest chalk this formatAttr now req w) = w)
     \<and> (onRequest formatAttr = Some f \<and> f req \<noteq> [] \<longrightarrow>
          snd (format_onRequest chalk this formatAttr now req w) =
            w @ [line (tagged LHttp (f req))])
     \<and> (\<not> showLevel this \<and> success = [] \<longrightarrow>
          format_onAfterResponse chalk StatusMap hrtime Date_now this formatAttr ctx
            timeStart w = w)
     \<and> (httpLogging this \<and> success \<noteq> [] \<longrightarrow>
          format_onAfterResponse chalk StatusMap hrtime Date_now this formatAttr ctx
            timeStart w = w @ [line (tagged LHttp success)])
     \<and> (\<not> showLevel this \<and> failure = [] \<longrightarrow>
          format_onError chalk this formatAttr req err code datetime w = w)
     \<and> (failure \<noteq> [] \<longrightarrow>
          format_onError chalk this formatAttr req err code datetime w =
            w @ [line (tagged LError failure)])
     \<and> (blank t \<longrightarrow> removeAnsi (t @ newline) = [])
     \<and> (t \<noteq> [] \<and> \<not> hasAnsi t \<and> \<not> isWhiteSpace (hd t) \<longrightarrow>
          removeAnsi (t @ newline) = t @ newline))"
proof -
  define line where "line = (\<lambda>t. case name (dest this) of
                       None \<Rightarrow> BunWrite (dest this) (t @ newline)
                     | Some n \<Rightarrow>
                         if n = [] then BunWrite (dest this) (t @ newline)
                         else AppendFile n (removeAnsi (t @ newline)))"
  define tagged where "tagged = (\<lambda>T m. if showLevel this
                         then colourLogType chalk T (logLevelColour this) @ '' '' @ m else m)"
  define success where "success = onSuccess formatAttr
                    (buildAttrs StatusMap hrtime Date_now ctx (requestedAttrs this) timeStart)"
  define failure where "failure = onFailure formatAttr req err code datetime"
  have writer_empty: "log this [] w = w"
    by (simp add: log_def)
  have writer: "log this m w = w @ [line m]" if "m \<noteq> []" for m
    using that by (simp add: log_def line_def split: option.splits)
  have tagged_off: "tagged T m = m" if "\<not> showLevel this" for T m
    using that by (simp add: tagged_def)
  have tagged_full: "tagged T m \<noteq> []" if "m \<noteq> []" for T m
    using that by (simp add: tagged_def)
  have info_log: "info chalk this m w = log this (tagged LInfo m) w"
    and warn_log: "warn chalk this m w = log this (tagged LWarn m) w"
    and debug_log: "debug chalk this m w = log this (tagged LDebug m) w"
    and error_log: "error chalk this m w = log this (tagged LError m) w"
    if "explicitLogging this" for m
    using that by (simp_all add: info_def warn_def debug_def error_def tagged_def)
  have explicit_empty: "info chalk this [] w = w \<and> warn chalk this [] w = w
      \<and> debug chalk this [] w = w \<and> error chalk this [] w = w" if "\<not> showLevel this"
    using that by (simp add: info_def warn_def debug_def error_def log_def)
  have explicit: "info chalk this msg w = w @ [line (tagged LInfo msg)]
      \<and> warn chalk this msg w = w @ [line (tagged LWarn msg)]
      \<and> debug chalk this msg w = w @ [line (tagged LDebug msg)]
      \<and> error chalk this msg w = w @ [line (tagged LError msg)]"
    if "explicitLogging this \<and> msg \<noteq> []"
    using that by (simp add: info_log warn_log debug_log error_log writer tagged_full)
  have request_log: "snd (format_onRequest chalk this formatAttr now req w) =
      log this (tagged LHttp (f req)) w" if "onRequest formatAttr = Some f"
    using that by (simp add: format_onRequest_def tagged_def)
  have request_empty: "snd (format_onRequest chalk this formatAttr now req w) = w"
    if "onRequest formatAttr = Some f \<and> \<not> showLevel this \<and> f req = []"
    using that by (simp add: request_log tagged_off writer_empty)
  have request: "snd (format_onRequest chalk this formatAttr now req w) =
      w @ [line (tagged LHttp (f req))]"
    if "onRequest formatAttr = Some f \<and> f req \<noteq> []"
    using that by (simp add: request_log writer tagged_full)
  have response_empty:
    "format_onAfterResponse chalk StatusMap hrtime Date_now this formatAttr ctx timeStart w = w"
    if "\<not> showLevel this \<and> success = []"
    using that by (simp add: format_onAfterResponse_def success_def log_def)
  have response:
    "format_onAfterResponse chalk StatusMap hrtime Date_now this formatAttr ctx timeStart w =
       w @ [line (tagged LHttp success)]"
    if "httpLogging this \<and> success \<noteq> []"
  proof -
    from that have "format_onAfterResponse chalk StatusMap hrtime Date_now this formatAttr ctx
        timeStart w = log this (tagged LHttp success) w"
      by (simp add: format_onAfterResponse_def success_def tagged_def)
    with that show ?thesis by (simp add: writer tagged_full)
  qed
  have failure_log: "format_onError chalk this formatAttr req err code datetime w =
      log this (tagged LError failure) w"
    by (simp add: format_onError_def failure_def tagged_def)
  have failure_empty: "format_onError chalk this formatAttr req err code datetime w = w"
    if "\<not> showLevel this \<and> failure = []"
    using that by (simp add: failure_log tagged_off writer_empty)
  have failure_full: "format_onError chalk this formatAttr req err code datetime w =
      w @ [line (tagged LError failure)]" if "failure \<noteq> []"
    using that by (simp add: failure_log writer tagged_full)
  have file_blank: "removeAnsi (t @ newline) = []" if "blank t"
    using that by (rule removeAnsi_blank)
  have file_clean: "removeAnsi (t @ newline) = t @ newline"
    if "t \<noteq> [] \<and> \<not> hasAnsi t \<and> \<not> isWhiteSpace (hd t)"
    using that by (simp add: removeAnsi_clean)
  have main:
    "(log this [] w = w)
     \<and> (msg \<noteq> [] \<longrightarrow> log this msg w = w @ [line msg])
     \<and> (\<not> showLevel this \<longrightarrow>
          info chalk this [] w = w \<and> warn chalk this [] w = w
          \<and> debug chalk this [] w = w \<and> error chalk this [] w = w)
     \<and> (explicitLogging this \<and> msg \<noteq> [] \<longrightarrow>
          info chalk this msg w = w @ [line (tagged LInfo msg)]
          \<and> warn chalk this msg w = w @ [line (tagged LWarn msg)]
          \<and> debug chalk this msg w = w @ [line (tagged LDebug msg)]
          \<and> error chalk this msg w = w @ [line (tagged LError msg)])
     \<and> (onRequest formatAttr = Some f \<and> \<not> showLevel this \<and> f req = [] \<longrightarrow>
          snd (format_onRequest chalk this formatAttr now req w) = w)
     \<and> (onRequest formatAttr = Some f \<and> f req \<noteq> [] \<longrightarrow>
          snd (format_onRequest chalk this formatAttr now req w) =
            w @ [line (tagged LHttp (f req))])
     \<and> (\<not> showLevel this \<and> success = [] \<longrightarrow>
          format_onAfterResponse chalk StatusMap hrtime Date_now this formatAttr ctx
            timeStart w = w)
     \<and> (httpLogging this \<and> success \<noteq> [] \<longrightarrow>
          format_onAfterResponse chalk StatusMap hrtime Date_now this formatAttr ctx
            timeStart w = w @ [line (tagged LHttp success)])
     \<and> (\<not> showLevel this \<and> failure = [] \<longrightarrow>
          format_onError chalk this formatAttr req err code datetime w = w)
     \<and> (failure \<noteq> [] \<longrightarrow>
          format_onError chalk this formatAttr req err code datetime w =
            w @ [line (tagged LError failure)])
     \<and> (blank t \<longrightarrow> removeAnsi (t @ newline) = [])
     \<and> (t \<noteq> [] \<and> \<not> hasAnsi t \<and> \<not> isWhiteSpace (hd t) \<longrightarrow>
          removeAnsi (t @ newline) = t @ newline)"
    using writer_empty writer[of msg] explicit_empty explicit request_empty request
      response_empty response failure_empty failure_full file_blank file_clean
    by blast
  from main show ?thesis
    unfolding Let_def line_def tagged_def success_def failure_def .
qed

theorem logging_calls_write_witness:
  "info plainChalk stdoutLogger ''hello'' [] = [BunWrite Stdout (''hello'' @ newline)]
   \<and> info plainChalk stdoutLogger [] [] = []
   \<and> log fileLogger ''GET /x'' [] = [AppendFile ''app.log'' (''GET /x'' @ newline)]
   \<and> log fileLogger ''  '' [] = [AppendFile ''app.log'' []]
   \<and> format_onAfterResponse plainChalk sampleStatusMap sampleClock sampleClock
        (use stdoutLogger [Method, Path]) sampleCallback sampleContext 1000 []
       = [BunWrite Stdout (''GET /x'' @ newline)]
   \<and> format_onError plainChalk stdoutLogger silentCallback sampleRequest () () 0 [] = []"
proof -
  note at_stdout = logging_calls_write [where this = stdoutLogger and chalk = plainChalk
      and formatAttr = silentCallback and StatusMap = sampleStatusMap
      and hrtime = sampleClock and Date_now = sampleClock and ctx = sampleContext
      and timeStart = 1000 and req = sampleRequest and err = "()" and code = "()"
      and datetime = 0 and w = "[]" and msg = "''hello''" and f = sampleOnRequest
      and now = 0 and t = "''hello''", unfolded Let_def]
  note at_use = logging_calls_write [where this = "use stdoutLogger [Method, Path]"
      and chalk = plainChalk
      and formatAttr = sampleCallback and StatusMap = sampleStatusMap
      and hrtime = sampleClock and Date_now = sampleClock and ctx = sampleContext
      and timeStart = 1000 and req = sampleRequest and err = "()" and code = "()"
      and datetime = 0 and w = "[]" and msg = "''hello''" and f = sampleOnRequest
      and now = 0 and t = "''hello''", unfolded Let_def]
  note at_file = logging_calls_write [where this = fileLogger and chalk = plainChalk
      and formatAttr = sampleCallback and StatusMap = sampleStatusMap
      and hrtime = sampleClock and Date_now = sampleClock and ctx = sampleContext
      and timeStart = 1000 and req = sampleRequest and err = "()" and code = "()"
      and datetime = 0 and w = "[]" and msg = "''GET /x''" and f = sampleOnRequest
      and now = 0 and t = "''GET /x''", unfolded Let_def]
  note at_blank = logging_calls_write [where this = fileLogger and chalk = plainChalk
      and formatAttr = sampleCallback and StatusMap = sampleStatusMap
      and hrtime = sampleClock and Date_now = sampleClock and ctx = sampleContext
      and timeStart = 1000 and req = sampleRequest and err = "()" and code = "()"
      and datetime = 0 and w = "[]" and msg = "''  ''" and f = sampleOnRequest
      and now = 0 and t = "''  ''", unfolded Let_def]
  have s: "name (dest stdoutLogger) = None" "\<not> showLevel stdoutLogger"
    "dest stdoutLogger = Stdout" "explicitLogging stdoutLogger"
    by (simp_all add: stdoutLogger_def)
  have u: "name (dest (use stdoutLogger [Method, Path])) = None"
    "\<not> showLevel (use stdoutLogger [Method, Path])"
    "dest (use stdoutLogger [Method, Path]) = Stdout"
    "httpLogging (use stdoutLogger [Method, Path])"
    by (simp_all add: stdoutLogger_def use_def)
  have f: "name (dest fileLogger) = Some ''app.log''"
    by (simp add: fileLogger_def)
  have c: "\<not> hasAnsi ''GET /x''" "\<not> isWhiteSpace (hd ''GET /x'')" "blank ''  ''"
    by (simp_all add: matchAnsi_def ESC_def isWhiteSpace_def blank_def)
  have g: "onSuccess sampleCallback
             (buildAttrs sampleStatusMap sampleClock sampleClock sampleContext
                (requestedAttrs (use stdoutLogger [Method, Path])) 1000) = ''GET /x''"
    by (simp add: sampleCallback_def sampleOnSuccess_def showAttr_def use_def
        stdoutLogger_def buildAttrs_def buildAttr_def sampleContext_def sampleRequest_def)
  have q: "onFailure silentCallback sampleRequest () () 0 = []"
    by (simp add: silentCallback_def silentOnFailure_def)
  have 1: "info plainChalk stdoutLogger ''hello'' [] = [BunWrite Stdout (''hello'' @ newline)]"
    using at_stdout s by simp
  have 2: "info plainChalk stdoutLogger [] [] = []"
    using at_stdout s by simp
  have 3: "log fileLogger ''GET /x'' [] = [AppendFile ''app.log'' (''GET /x'' @ newline)]"
    using at_file f c(1,2) by simp
  have 4: "log fileLogger ''  '' [] = [AppendFile ''app.log'' []]"
    using at_blank f c(3) by simp
  have 5: "format_onAfterResponse plainChalk sampleStatusMap sampleClock sampleClock
        (use stdoutLogger [Method, Path]) sampleCallback sampleContext 1000 []
       = [BunWrite Stdout (''GET /x'' @ newline)]"
    using at_use u g by simp
  have 6: "format_onError plainChalk stdoutLogger silentCallback sampleRequest () () 0 [] = []"
    using at_stdout s q by simp
  from 1 2 3 4 5 6 show ?thesis by simp
qed

subsection \<open>The hook for failed requests\<close>

text \<open>
  Claim C6, as stated: an error thrown while a request is handled gives exactly one log
  line, whatever \<open>httpLogging\<close> is. It fails when \<open>onFailure\<close> returns the empty string and
  \<open>showLevel\<close> is off: the writer ignores the empty message.
\<close>

theorem silent_failure_counterexample:
  "constructor optionsHttpOff = Inr stdoutLogger
   \<and> format_onError plainChalk stdoutLogger silentCallback sampleRequest () () 0 [] = []"
  by (simp add: constructor_def setDest_def or_bool_def optionsHttpOff_def stdoutLogger_def
      format_onError_def silentCallback_def silentOnFailure_def log_def)

text \<open>
  Claim C6, amended: the hook for failed requests does not look at \<open>httpLogging\<close>. It issues
  exactly one write, of the message of \<open>onFailure\<close> (behind the tag when \<open>showLevel\<close> is on)
  and a newline (for a file, \<open>removeAnsi\<close> of the two), whenever \<open>showLevel\<close> is on or \<open>onFailure\<close> returns a message that is not
  empty; it writes nothing when \<open>showLevel\<close> is off and the message is empty.
\<close>

theorem format_onError_writes_once:
  "format_onError chalk (this\<lparr>httpLogging := b\<rparr>) formatAttr req err code datetime w =
     format_onError chalk this formatAttr req err code datetime w
   \<and> (let m = onFailure formatAttr req err code datetime;
           m' = (if showLevel this
                 then colourLogType chalk LError (logLevelColour this) @ '' '' @ m else m)
       in (showLevel this \<or> m \<noteq> [] \<longrightarrow>
             format_onError chalk this formatAttr req err code datetime w =
               w @ [case name (dest this) of
                      None \<Rightarrow> BunWrite (dest this) (m' @ newline)
                    | Some n \<Rightarrow>
                        if n = [] then BunWrite (dest this) (m' @ newline)
                        else AppendFile n (removeAnsi (m' @ newline))])
          \<and> (\<not> showLevel this \<and> m = [] \<longrightarrow>
               format_onError chalk this formatAttr req err code datetime w = w))"
proof (intro conjI)
  show "format_onError chalk (this\<lparr>httpLogging := b\<rparr>) formatAttr req err code datetime w =
        format_onError chalk this formatAttr req err code datetime w"
    by (simp add: format_onError_def log_def Let_def split: option.splits)
next
  show "let m = onFailure formatAttr req err code datetime;
            m' = (if showLevel this
                  then colourLogType chalk LError (logLevelColour this) @ '' '' @ m else m)
        in (showLevel this \<or> m \<noteq> [] \<longrightarrow>
              format_onError chalk this formatAttr req err code datetime w =
                w @ [case name (dest this) of
                       None \<Rightarrow> BunWrite (dest this) (m' @ newline)
                     | Some n \<Rightarrow>
                         if n = [] then BunWrite (dest this) (m' @ newline)
                         else AppendFile n (removeAnsi (m' @ newline))])
           \<and> (\<not> showLevel this \<and> m = [] \<longrightarrow>
                format_onError chalk this formatAttr req err code datetime w = w)"
    by (auto simp: format_onError_def log_def Let_def split: option.splits)
qed

theorem format_onError_writes_once_witness:
  "format_onError plainChalk (stdoutLogger\<lparr>httpLogging := False\<rparr>) sampleCallback
     sampleRequest () () 0 [] = [BunWrite Stdout (''failed GET /x'' @ newline)]"
proof -
  have m: "onFailure sampleCallback sampleRequest () () 0 = ''failed GET /x''"
    by (simp add: sampleCallback_def sampleOnFailure_def sampleRequest_def)
  have d: "dest stdoutLogger = Stdout" "\<not> showLevel stdoutLogger"
    by (simp_all add: stdoutLogger_def)
  show ?thesis
    using format_onError_writes_once [where chalk = plainChalk and this = stdoutLogger
        and b = False and formatAttr = sampleCallback and req = sampleRequest
        and err = "()" and code = "()" and datetime = 0 and w = "[]"] m d
    by (auto simp: Let_def)
qed

end
